theory Spec2Isabelle
  imports Complex_Main "HOL-Library.Word" "HOL-Library.Sublist"
begin

text \<open>
  The server of this repository has one route, \<open>POST /query\<close>: it asks a language model
  for a SQL statement (\<open>generateSQL\<close>), runs the statement on MySQL (\<open>db.query\<close>) and
  answers with the statement and the rows. The theory embeds \<open>generateSQL\<close> and the
  handler of the route, with the JavaScript strings and values they work on, and proves
  the properties claimed of them.
\<close>

section \<open>JavaScript strings\<close>

text \<open>
  A JavaScript string is a finite sequence of UTF-16 code units; every list of 16-bit words
  is a string and conversely. Literals of the source that are plain ASCII are written with
  \<open>ascii\<close>.
\<close>

type_synonym code_unit = "16 word"
type_synonym js_string = "code_unit list"

definition ascii :: "string \<Rightarrow> js_string" where
  "ascii s = map (\<lambda>c. of_nat (of_char c)) s"

definition backtick :: code_unit where
  "backtick = 0x60"

text \<open>
  \<open>String.prototype.trim\<close> removes WhiteSpace and LineTerminator code points from both ends
  (ECMA-262, TrimString): TAB, VT, FF, SP, NBSP, ZWNBSP, the Unicode space separators, and
  LF, CR, LS, PS.
\<close>

definition is_js_space :: "code_unit \<Rightarrow> bool" where
  "is_js_space c \<longleftrightarrow>
     c = 0x09 \<or> c = 0x0A \<or> c = 0x0B \<or> c = 0x0C \<or> c = 0x0D \<or> c = 0x20 \<or> c = 0xA0 \<or>
     c = 0x1680 \<or> (0x2000 \<le> c \<and> c \<le> 0x200A) \<or> c = 0x2028 \<or> c = 0x2029 \<or>
     c = 0x202F \<or> c = 0x205F \<or> c = 0x3000 \<or> c = 0xFEFF"

definition trim :: "js_string \<Rightarrow> js_string" where
  "trim s = rev (dropWhile is_js_space (rev (dropWhile is_js_space s)))"

subsection \<open>Global regular-expression replacement by the empty string\<close>

text \<open>
  The two regular expressions of the source are plain character sequences, so a pattern is
  a list of character classes, one per position. \<open>s.replace(/p/g, "")\<close> scans from the
  left, deletes a match where one starts and resumes after it; otherwise it keeps the
  code unit and moves one position on. The result is not scanned again.
\<close>

type_synonym pattern = "(code_unit \<Rightarrow> bool) list"

fun matches_at :: "pattern \<Rightarrow> js_string \<Rightarrow> bool" where
  "matches_at [] s = True"
| "matches_at (p # ps) [] = False"
| "matches_at (p # ps) (c # cs) = (p c \<and> matches_at ps cs)"

fun replace_all_empty :: "pattern \<Rightarrow> js_string \<Rightarrow> js_string" where
  "replace_all_empty [] s = s"
| "replace_all_empty (p # ps) [] = []"
| "replace_all_empty (p # ps) (c # cs) =
     (if matches_at (p # ps) (c # cs)
      then replace_all_empty (p # ps) (drop (length ps) cs)
      else c # replace_all_empty (p # ps) cs)"

text \<open>
  With the \<open>i\<close> flag and without the \<open>u\<close> flag, two code units match when their
  canonical forms (simple upper-casing of one code unit) agree, and a code unit from 128 on
  never canonicalises to one below 128. So an ASCII letter of the pattern matches exactly
  its two ASCII cases.
\<close>

definition lit :: "code_unit \<Rightarrow> code_unit \<Rightarrow> bool" where
  "lit a c \<longleftrightarrow> c = a"

definition lit_ci :: "code_unit \<Rightarrow> code_unit \<Rightarrow> code_unit \<Rightarrow> bool" where
  "lit_ci lower upper c \<longleftrightarrow> c = lower \<or> c = upper"

definition re_fence_sql :: pattern where
  \<comment> \<open>the regular expression \<open>```sql\<close> with flags \<open>gi\<close>\<close>
  "re_fence_sql =
     [lit backtick, lit backtick, lit backtick,
      lit_ci 0x73 0x53, lit_ci 0x71 0x51, lit_ci 0x6C 0x4C]"

definition re_fence :: pattern where
  \<comment> \<open>the regular expression \<open>```\<close> with flag \<open>g\<close>\<close>
  "re_fence = [lit backtick, lit backtick, lit backtick]"

definition cleanSQL :: "js_string \<Rightarrow> js_string" where
  \<comment> \<open>\<open>text.replace(/```sql/gi, "").replace(/```/g, "").trim()\<close>\<close>
  "cleanSQL text = trim (replace_all_empty re_fence (replace_all_empty re_fence_sql text))"

fun occurs :: "pattern \<Rightarrow> js_string \<Rightarrow> bool" where
  "occurs p [] = matches_at p []"
| "occurs p (c # cs) = (matches_at p (c # cs) \<or> occurs p cs)"

section \<open>JavaScript values\<close>

text \<open>
  The values that \<open>JSON.parse\<close> produces (the request body read by \<open>express.json()\<close>, the
  provider's response read by axios), and \<open>undefined\<close> for what is absent. A number is a
  double that came from a JSON literal: finite, or an infinity for a literal out of range;
  never NaN. An object is the list of its own properties, each key once; JSON values are
  never functions.
\<close>

datatype js_number = Finite rat | PosInfinity | NegInfinity

datatype js_value =
    JUndefined
  | JNull
  | JBool bool
  | JNumber js_number
  | JString js_string
  | JArray "js_value list"
  | JObject "(js_string \<times> js_value) list"

datatype js_error = TypeError

fun truthy :: "js_value \<Rightarrow> bool" where
  "truthy JUndefined = False"
| "truthy JNull = False"
| "truthy (JBool b) = b"
| "truthy (JNumber n) = (n \<noteq> Finite 0)"
| "truthy (JString s) = (s \<noteq> [])"
| "truthy (JArray xs) = True"
| "truthy (JObject kvs) = True"

fun nullish :: "js_value \<Rightarrow> bool" where
  "nullish JUndefined = True"
| "nullish JNull = True"
| "nullish v = False"

text \<open>
  \<open>v.name\<close> on a value that is neither \<open>null\<close> nor \<open>undefined\<close>, for a name that no
  prototype defines (\<open>nlQuery\<close>, \<open>candidates\<close>, \<open>content\<close>, \<open>parts\<close>, \<open>text\<close>): the own
  property of an object, \<open>undefined\<close> on anything else.
\<close>

fun get_prop :: "js_value \<Rightarrow> js_string \<Rightarrow> js_value" where
  "get_prop (JObject kvs) k = (case map_of kvs k of Some v \<Rightarrow> v | None \<Rightarrow> JUndefined)"
| "get_prop v k = JUndefined"

text \<open>\<open>v[0]\<close>: the first element of an array, the first code unit of a string, the
  property \<open>"0"\<close> of an object.\<close>

fun get_index0 :: "js_value \<Rightarrow> js_value" where
  "get_index0 (JArray xs) = (case xs of [] \<Rightarrow> JUndefined | x # _ \<Rightarrow> x)"
| "get_index0 (JString s) = (case s of [] \<Rightarrow> JUndefined | c # _ \<Rightarrow> JString [c])"
| "get_index0 (JObject kvs) = get_prop (JObject kvs) (ascii ''0'')"
| "get_index0 v = JUndefined"

text \<open>Optional chaining: \<open>v?.name\<close> and \<open>v?.[0]\<close> are \<open>undefined\<close> when \<open>v\<close> is nullish.\<close>

definition opt_prop :: "js_value \<Rightarrow> js_string \<Rightarrow> js_value" where
  "opt_prop v k = (if nullish v then JUndefined else get_prop v k)"

definition opt_index0 :: "js_value \<Rightarrow> js_value" where
  "opt_index0 v = (if nullish v then JUndefined else get_index0 v)"

text \<open>
  The conversion to a string that a template literal applies to a substituted value.
  The text of a number (\<open>Number::toString\<close>) is a parameter. An array joins its elements
  with commas, a nullish element giving the empty string. An object without an own
  \<open>toString\<close> property prints as \<open>[object Object]\<close>; with one, which is never callable,
  the conversion finds no primitive value and throws a TypeError.
\<close>

fun to_string :: "(js_number \<Rightarrow> js_string) \<Rightarrow> js_value \<Rightarrow> js_error + js_string"
  and join_elements :: "(js_number \<Rightarrow> js_string) \<Rightarrow> js_value list \<Rightarrow> js_error + js_string"
where
  "to_string f JUndefined = Inr (ascii ''undefined'')"
| "to_string f JNull = Inr (ascii ''null'')"
| "to_string f (JBool b) = Inr (if b then ascii ''true'' else ascii ''false'')"
| "to_string f (JNumber n) = Inr (f n)"
| "to_string f (JString s) = Inr s"
| "to_string f (JArray xs) = join_elements f xs"
| "to_string f (JObject kvs) =
     (if map_of kvs (ascii ''toString'') = None then Inr (ascii ''[object Object]'')
      else Inl TypeError)"
| "join_elements f [] = Inr []"
| "join_elements f (x # xs) =
     (case (if nullish x then Inr [] else to_string f x) of
        Inl e \<Rightarrow> Inl e
      | Inr s \<Rightarrow>
          (if xs = [] then Inr s
           else (case join_elements f xs of
                   Inl e \<Rightarrow> Inl e
                 | Inr r \<Rightarrow> Inr (s @ ascii '','' @ r))))"

section \<open>The SQL generator\<close>

definition arrow :: js_string where
  \<comment> \<open>U+2192, the arrow of the schema description\<close>
  "arrow = [0x2192]"

definition template_lines :: "js_string list \<Rightarrow> js_string" where
  \<comment> \<open>the lines of a template literal, each closed by a line feed\<close>
  "template_lines ls = concat (map (\<lambda>l. l @ [0x0A]) ls)"

definition schemaDescription :: js_string where
  \<open>schemaDescription = template_lines
     [[],
      ascii ''You are an AI SQL generator. Convert the user's request into a valid MySQL query for the database "daily_job_automotive".'',
      [],
      ascii ''Below is the database schema and relationships.'',
      [],
      ascii ''TABLES AND FIELDS:'',
      [],
      ascii ''1. job_category  '',
      ascii ''   - id (INT, Primary Key)  '',
      ascii ''   - name (VARCHAR)  '',
      ascii ''   Purpose: Defines different job categories like Electrical, Mechanical, Bodywork, etc.'',
      [],
      ascii ''2. job_fare  '',
      ascii ''   - id (INT, Primary Key)  '',
      ascii ''   - category_id (FK '' @ arrow @ ascii '' job_category.id)  '',
      ascii ''   - job_name (VARCHAR)  '',
      ascii ''   - base_rate (DECIMAL)  '',
      ascii ''   Purpose: Stores base rates or pricing for each job type under a category.'',
      [],
      ascii ''3. resource_skill  '',
      ascii ''   - id (INT, Primary Key)  '',
      ascii ''   - skill_name (VARCHAR)  '',
      ascii ''   Purpose: List of technician or employee skills.'',
      [],
      ascii ''4. franchise  '',
      ascii ''   - id (INT, Primary Key)  '',
      ascii ''   - name (VARCHAR)  '',
      ascii ''   Purpose: Represents the franchise or business branch.'',
      [],
      ascii ''5. brand  '',
      ascii ''   - id (INT, Primary Key)  '',
      ascii ''   - name (VARCHAR)  '',
      ascii ''   Purpose: Stores vehicle brand names (e.g., Toyota, Ford, BMW).'',
      [],
      ascii ''6. location  '',
      ascii ''   - id (INT, Primary Key)  '',
      ascii ''   - name (VARCHAR)  '',
      ascii ''   - address (VARCHAR)  '',
      ascii ''   Purpose: Physical workshop or operational locations.'',
      [],
      ascii ''7. resource  '',
      ascii ''   - id (INT, Primary Key)  '',
      ascii ''   - name (VARCHAR)  '',
      ascii ''   - role (ENUM: Admin, Supervisor, Technician)  '',
      ascii ''   - skill_id (FK '' @ arrow @ ascii '' resource_skill.id)  '',
      ascii ''   - location_id (FK '' @ arrow @ ascii '' location.id)  '',
      ascii ''   - franchise_id (FK '' @ arrow @ ascii '' franchise.id)  '',
      ascii ''   Purpose: Employee or technician master data.'',
      [],
      ascii ''8. job_card  '',
      ascii ''   - id (INT, Primary Key)  '',
      ascii ''   - jc_no (VARCHAR)  '',
      ascii ''   - job_category_id (FK '' @ arrow @ ascii '' job_category.id)  '',
      ascii ''   - brand_id (FK '' @ arrow @ ascii '' brand.id)  '',
      ascii ''   - assigned_to (FK '' @ arrow @ ascii '' resource.id)  '',
      ascii ''   - assigned_by (FK '' @ arrow @ ascii '' resource.id)  '',
      ascii ''   - start_time (DATETIME)  '',
      ascii ''   - end_time (DATETIME)  '',
      ascii ''   - status (ENUM: Pending, InProgress, Hold, Completed)  '',
      ascii ''   - remarks (VARCHAR)  '',
      ascii ''   Purpose: Represents a single job assigned to a technician for a specific vehicle or work item.'',
      [],
      ascii ''9. job_card_photo  '',
      ascii ''   - id (INT, Primary Key)  '',
      ascii ''   - job_card_id (FK '' @ arrow @ ascii '' job_card.id)  '',
      ascii ''   - photo_type (ENUM: Before, After)  '',
      ascii ''   - photo_url (VARCHAR)  '',
      ascii ''   - uploaded_by (INT)  '',
      ascii ''   - uploaded_on (DATETIME)  '',
      ascii ''   Purpose: Stores before and after job photos linked to a job card.'',
      [],
      ascii ''10. qc_check  '',
      ascii ''    - id (INT, Primary Key)  '',
      ascii ''    - job_card_id (FK '' @ arrow @ ascii '' job_card.id)  '',
      ascii ''    - checked_by (INT)  '',
      ascii ''    - status (ENUM: Approved, Rejected)  '',
      ascii ''    - remarks (VARCHAR)  '',
      ascii ''    - checked_on (DATETIME)  '',
      ascii ''    Purpose: Quality control verification for completed jobs.'',
      [],
      ascii ''11. delivery_order  '',
      ascii ''    - id (INT, Primary Key)  '',
      ascii ''    - job_card_id (FK '' @ arrow @ ascii '' job_card.id)  '',
      ascii ''    - do_number (VARCHAR)  '',
      ascii ''    - completed_on (DATETIME)  '',
      ascii ''    - status (ENUM: Pending, Completed)  '',
      ascii ''    Purpose: Delivery record for completed jobs.'',
      [],
      ascii ''12. lpo  '',
      ascii ''    - id (INT, Primary Key)  '',
      ascii ''    - job_card_id (FK '' @ arrow @ ascii '' job_card.id)  '',
      ascii ''    - lpo_number (VARCHAR)  '',
      ascii ''    - amount (DECIMAL)  '',
      ascii ''    - linked_do (FK '' @ arrow @ ascii '' delivery_order.id)  '',
      ascii ''    Purpose: Local purchase order details linked to job or delivery order.'',
      [],
      ascii ''13. invoice  '',
      ascii ''    - id (INT, Primary Key)  '',
      ascii ''    - job_card_id (FK '' @ arrow @ ascii '' job_card.id)  '',
      ascii ''    - invoice_no (VARCHAR)  '',
      ascii ''    - invoice_date (DATE)  '',
      ascii ''    - total_amount (DECIMAL)  '',
      ascii ''    Purpose: Billing and invoice details linked to a job card.'',
      [],
      ascii ''RELATIONSHIPS SUMMARY:'',
      ascii ''- job_fare.category_id '' @ arrow @ ascii '' job_category.id  '',
      ascii ''- resource.skill_id '' @ arrow @ ascii '' resource_skill.id  '',
      ascii ''- resource.location_id '' @ arrow @ ascii '' location.id  '',
      ascii ''- resource.franchise_id '' @ arrow @ ascii '' franchise.id  '',
      ascii ''- job_card.job_category_id '' @ arrow @ ascii '' job_category.id  '',
      ascii ''- job_card.brand_id '' @ arrow @ ascii '' brand.id  '',
      ascii ''- job_card.assigned_to / assigned_by '' @ arrow @ ascii '' resource.id  '',
      ascii ''- job_card_photo.job_card_id '' @ arrow @ ascii '' job_card.id  '',
      ascii ''- qc_check.job_card_id '' @ arrow @ ascii '' job_card.id  '',
      ascii ''- delivery_order.job_card_id '' @ arrow @ ascii '' job_card.id  '',
      ascii ''- lpo.job_card_id '' @ arrow @ ascii '' job_card.id  '',
      ascii ''- lpo.linked_do '' @ arrow @ ascii '' delivery_order.id  '',
      ascii ''- invoice.job_card_id '' @ arrow @ ascii '' job_card.id'',
      [],
      ascii ''RULES:'',
      ascii ''- Output only valid MySQL syntax.'',
      ascii ''- Do not explain; return only the SQL.'',
      ascii ''- When grouping or aggregating, use proper joins and aliases.'']\<close>

text \<open>
  \<open>generateSQL\<close> up to its \<open>await\<close>: the prompt
  \<open>`${schemaDescription}\nUser: ${nlQuery}`\<close>, built before the \<open>try\<close> block, so a
  TypeError of the conversion leaves \<open>generateSQL\<close>.
\<close>

definition generateSQL_prompt ::
  "(js_number \<Rightarrow> js_string) \<Rightarrow> js_value \<Rightarrow> js_error + js_string" where
  "generateSQL_prompt num_text nlQuery =
     (case to_string num_text nlQuery of
        Inl e \<Rightarrow> Inl e
      | Inr q \<Rightarrow> Inr (schemaDescription @ [0x0A] @ ascii ''User: '' @ q))"

text \<open>What the awaited \<open>axios.post\<close> does: it rejects, or resolves with \<open>res.data\<close>.\<close>

datatype llm_outcome = HttpFailed | HttpOk js_value

definition first_candidate_text :: "js_value \<Rightarrow> js_value" where
  \<comment> \<open>\<open>res.data?.candidates?.[0]?.content?.parts?.[0]?.text\<close>\<close>
  "first_candidate_text data =
     opt_prop (opt_index0 (opt_prop (opt_prop (opt_index0
       (opt_prop data (ascii ''candidates''))) (ascii ''content'')) (ascii ''parts'')))
       (ascii ''text'')"

text \<open>
  \<open>t?.trim() || ""\<close>: a nullish \<open>t\<close> gives the empty string; a string is trimmed; any
  other value has no callable \<open>trim\<close>, and calling it throws a TypeError.
\<close>

fun trimmed_or_empty :: "js_value \<Rightarrow> js_error + js_string" where
  "trimmed_or_empty JUndefined = Inr []"
| "trimmed_or_empty JNull = Inr []"
| "trimmed_or_empty (JString s) = Inr (trim s)"
| "trimmed_or_empty v = Inl TypeError"

text \<open>
  \<open>generateSQL\<close> from its \<open>await\<close> on, the body of the \<open>try\<close> block and its \<open>catch\<close>:
  \<open>None\<close> is \<open>null\<close>.
\<close>

definition generateSQL_finish :: "llm_outcome \<Rightarrow> js_string option" where
  "generateSQL_finish outcome =
     (case outcome of
        HttpFailed \<Rightarrow> None
      | HttpOk data \<Rightarrow>
          (case trimmed_or_empty (first_candidate_text data) of
             Inl e \<Rightarrow> None
           | Inr text \<Rightarrow> if text = [] then None else Some (cleanSQL text)))"

section \<open>The request handler\<close>

text \<open>
  The awaited \<open>db.query\<close> rejects with an error carrying a message, or resolves with a
  pair whose first component the handler binds to \<open>rows\<close>. The rows are a JSON value, so
  writing them into the response does not fail.
\<close>

datatype db_outcome = DbFailed js_string | DbRows js_value

text \<open>
  The world a request runs in: the text of numbers, the provider's answer to a prompt and
  the database's answer to a statement. A request makes at most one call of each kind, so
  answers that are functions of the argument lose nothing.
\<close>

record world =
  number_text :: "js_number \<Rightarrow> js_string"
  llm :: "js_string \<Rightarrow> llm_outcome"
  db :: "js_string \<Rightarrow> db_outcome"

datatype call = LLMCall js_string | DBCall js_string

record response =
  status :: nat
  body :: js_value

datatype result = Responded response | Unhandled js_error

definition generateSQL :: "world \<Rightarrow> js_value \<Rightarrow> (js_error + js_string option) \<times> call list" where
  "generateSQL w nlQuery =
     (case generateSQL_prompt (number_text w) nlQuery of
        Inl e \<Rightarrow> (Inl e, [])
      | Inr prompt \<Rightarrow> (Inr (generateSQL_finish (llm w prompt)), [LLMCall prompt]))"

definition missing_query :: response where
  "missing_query =
     \<lparr>status = 400,
      body = JObject [(ascii ''error'', JString (ascii ''Missing natural query''))]\<rparr>"

definition generation_failed :: response where
  "generation_failed =
     \<lparr>status = 500,
      body = JObject [(ascii ''error'', JString (ascii ''AI failed to generate SQL''))]\<rparr>"

definition query_ok :: "js_string \<Rightarrow> js_value \<Rightarrow> response" where
  "query_ok sqlQuery rows =
     \<lparr>status = 200,
      body = JObject [(ascii ''sql'', JString sqlQuery), (ascii ''result'', rows)]\<rparr>"

definition execution_failed :: "js_string \<Rightarrow> js_string \<Rightarrow> response" where
  "execution_failed sqlQuery message =
     \<lparr>status = 500,
      body = JObject [(ascii ''error'', JString (ascii ''SQL Execution Failed'')),
                      (ascii ''details'', JString message),
                      (ascii ''sql'', JString sqlQuery)]\<rparr>"

definition finish_query :: "js_string \<Rightarrow> db_outcome \<Rightarrow> response" where
  \<comment> \<open>step 2 of the handler once \<open>db.query(sqlQuery)\<close> has settled: the rest of the
      \<open>try\<close> block, or the \<open>catch\<close>\<close>
  "finish_query sqlQuery outcome =
     (case outcome of
        DbRows rows \<Rightarrow> query_ok sqlQuery rows
      | DbFailed message \<Rightarrow> execution_failed sqlQuery message)"

text \<open>
  The handler of \<open>POST /query\<close> on the parsed body, with the outbound calls it made, in
  order. Destructuring a nullish body throws; so does a prompt that cannot be built. An
  exception that leaves the handler is \<open>Unhandled\<close>: the handler itself sends no response.
\<close>

definition handler :: "world \<Rightarrow> js_value \<Rightarrow> result \<times> call list" where
  "handler w req_body =
     (if nullish req_body then (Unhandled TypeError, [])
      else
        let nlQuery = get_prop req_body (ascii ''nlQuery'') in
        if \<not> truthy nlQuery then (Responded missing_query, [])
        else
          (case generateSQL w nlQuery of
             (Inl e, calls) \<Rightarrow> (Unhandled e, calls)
           | (Inr sqlQuery, calls) \<Rightarrow>
               (case sqlQuery of
                  None \<Rightarrow> (Responded generation_failed, calls)
                | Some sql \<Rightarrow>
                    if sql = [] then (Responded generation_failed, calls)
                    else (Responded (finish_query sql (db w sql)), calls @ [DBCall sql]))))"

subsection \<open>Requests in flight together\<close>

text \<open>
  JavaScript runs one handler at a time and leaves it only at an \<open>await\<close> (lines 147,
  184 and 191 of the source); when the awaited promise settles, the handler goes on from
  there, and in between the handlers of other requests may run. What the handlers share
  is the process: the environment variable \<open>process.env.GEMINI_API_KEY\<close>, which every
  provider call reads, and the console, to which \<open>generateSQL\<close> and the handler write.
  Everything else they use is a local constant of one invocation (\<open>nlQuery\<close>, \<open>prompt\<close>,
  \<open>text\<close>, \<open>cleanSQL\<close>, \<open>sqlQuery\<close>, \<open>rows\<close>).
\<close>

datatype log_line =
    EmptyGeminiResponse js_value
  | AIError
  | GeneratedSQL js_string
  | SQLExecutionError js_string

record server =
  api_key :: js_value
  console :: "log_line list"

text \<open>
  A request in flight: received and not yet handled, suspended at \<open>await axios.post\<close>
  with the key and the prompt it sent, suspended at \<open>await db.query\<close> with its
  \<open>sqlQuery\<close>, or finished.
\<close>

datatype task =
    Arrived js_value
  | AwaitingLLM js_value js_string
  | AwaitingDB js_string
  | Done result

datatype event = Dispatch | LLMSettled llm_outcome | DBSettled db_outcome

definition generateSQL_log :: "llm_outcome \<Rightarrow> log_line list" where
  \<comment> \<open>what \<open>generateSQL\<close> writes to the console once its call has settled\<close>
  "generateSQL_log outcome =
     (case outcome of
        HttpFailed \<Rightarrow> [AIError]
      | HttpOk data \<Rightarrow>
          (case trimmed_or_empty (first_candidate_text data) of
             Inl e \<Rightarrow> [AIError]
           | Inr text \<Rightarrow>
               if text = [] then [EmptyGeminiResponse data] else [GeneratedSQL (cleanSQL text)]))"

definition query_log :: "db_outcome \<Rightarrow> log_line list" where
  \<comment> \<open>what the handler writes to the console once \<open>db.query\<close> has settled\<close>
  "query_log outcome =
     (case outcome of DbRows rows \<Rightarrow> [] | DbFailed message \<Rightarrow> [SQLExecutionError message])"

text \<open>
  One uninterrupted run of a handler, from where it stands to its next \<open>await\<close> or to
  its end, on the shared server state: the handler from its entry to \<open>await axios.post\<close>;
  the rest of \<open>generateSQL\<close> and the handler up to \<open>await db.query\<close>; the rest of the
  handler. A task is resumed only by the event it waits for.
\<close>

fun step :: "(js_number \<Rightarrow> js_string) \<Rightarrow> server \<Rightarrow> task \<Rightarrow> event \<Rightarrow> server \<times> task" where
  "step num_text srv (Arrived req_body) Dispatch =
     (srv,
      if nullish req_body then Done (Unhandled TypeError)
      else
        let nlQuery = get_prop req_body (ascii ''nlQuery'') in
        if \<not> truthy nlQuery then Done (Responded missing_query)
        else
          (case generateSQL_prompt num_text nlQuery of
             Inl e \<Rightarrow> Done (Unhandled e)
           | Inr prompt \<Rightarrow> AwaitingLLM (api_key srv) prompt))"
| "step num_text srv (AwaitingLLM key prompt) (LLMSettled outcome) =
     (srv\<lparr>console := console srv @ generateSQL_log outcome\<rparr>,
      case generateSQL_finish outcome of
        None \<Rightarrow> Done (Responded generation_failed)
      | Some sql \<Rightarrow>
          if sql = [] then Done (Responded generation_failed) else AwaitingDB sql)"
| "step num_text srv (AwaitingDB sql) (DBSettled outcome) =
     (srv\<lparr>console := console srv @ query_log outcome\<rparr>,
      Done (Responded (finish_query sql outcome)))"
| "step num_text srv t e = (srv, t)"

text \<open>The world settles the call a task waits for.\<close>

fun serve :: "world \<Rightarrow> server \<times> task \<Rightarrow> server \<times> task" where
  "serve w (srv, Arrived req_body) = step (number_text w) srv (Arrived req_body) Dispatch"
| "serve w (srv, AwaitingLLM key prompt) =
     step (number_text w) srv (AwaitingLLM key prompt) (LLMSettled (llm w prompt))"
| "serve w (srv, AwaitingDB sql) =
     step (number_text w) srv (AwaitingDB sql) (DBSettled (db w sql))"
| "serve w (srv, Done r) = (srv, Done r)"

text \<open>
  Two requests in flight on one server: each event lets one of them run its next step on
  the shared state, in any order and with any outcome of its call.
\<close>

datatype which = First | Second

fun deliver ::
  "(js_number \<Rightarrow> js_string) \<Rightarrow> server \<times> task \<times> task \<Rightarrow> which \<times> event \<Rightarrow> server \<times> task \<times> task"
where
  "deliver num_text (srv, a, b) (First, e) =
     (case step num_text srv a e of (srv', a') \<Rightarrow> (srv', a', b))"
| "deliver num_text (srv, a, b) (Second, e) =
     (case step num_text srv b e of (srv', b') \<Rightarrow> (srv', a, b'))"

definition interleave ::
  "(js_number \<Rightarrow> js_string) \<Rightarrow> server \<times> task \<times> task \<Rightarrow> (which \<times> event) list \<Rightarrow>
   server \<times> task \<times> task" where
  "interleave num_text = foldl (deliver num_text)"

definition own_events :: "which \<Rightarrow> (which \<times> event) list \<Rightarrow> event list" where
  "own_events i evs = map snd (filter (\<lambda>e. fst e = i) evs)"

definition alone ::
  "(js_number \<Rightarrow> js_string) \<Rightarrow> server \<times> task \<Rightarrow> event list \<Rightarrow> server \<times> task" where
  \<comment> \<open>one request on a server of its own\<close>
  "alone num_text = foldl (\<lambda>(srv, t) e. step num_text srv t e)"

subsection \<open>Example worlds\<close>

definition provider_reply :: "js_string \<Rightarrow> js_value" where
  \<comment> \<open>the provider's response \<open>{candidates: [{content: {parts: [{text: t}]}}]}\<close>\<close>
  "provider_reply t =
     JObject [(ascii ''candidates'',
       JArray [JObject [(ascii ''content'',
         JObject [(ascii ''parts'', JArray [JObject [(ascii ''text'', JString t)]])])]])]"

definition empty_reply :: js_value where
  \<comment> \<open>a provider response without a candidate, \<open>{candidates: []}\<close>\<close>
  "empty_reply = JObject [(ascii ''candidates'', JArray [])]"

definition fixed_world :: "llm_outcome \<Rightarrow> db_outcome \<Rightarrow> world" where
  \<comment> \<open>a world whose provider and database give the same answer to every call\<close>
  "fixed_world l d = \<lparr>number_text = (\<lambda>n. ascii ''0''), llm = (\<lambda>prompt. l), db = (\<lambda>sql. d)\<rparr>"

definition query_body :: "js_value \<Rightarrow> js_value" where
  \<comment> \<open>the request body \<open>{nlQuery: v}\<close>\<close>
  "query_body v = JObject [(ascii ''nlQuery'', v)]"

section \<open>Properties of the fence cleaning\<close>

lemma matches_fence: "matches_at re_fence s \<longleftrightarrow> (\<exists>r. s = backtick # backtick # backtick # r)"
proof (cases s)
  case Nil then show ?thesis by (simp add: re_fence_def)
next
  case c1: (Cons a s1)
  show ?thesis
  proof (cases s1)
    case Nil with c1 show ?thesis by (simp add: re_fence_def)
  next
    case c2: (Cons b s2)
    show ?thesis
    proof (cases s2)
      case Nil with c1 c2 show ?thesis by (simp add: re_fence_def)
    next
      case (Cons c s3)
      with c1 c2 show ?thesis by (auto simp add: re_fence_def lit_def)
    qed
  qed
qed

lemma fence_Nil: "replace_all_empty re_fence [] = []"
  by (simp add: re_fence_def)

lemma fence_hit: "replace_all_empty re_fence (backtick # backtick # backtick # r) = replace_all_empty re_fence r"
  by (simp add: re_fence_def lit_def)

lemma fence_miss:
  "\<not> matches_at re_fence (c # cs) \<Longrightarrow>
   replace_all_empty re_fence (c # cs) = c # replace_all_empty re_fence cs"
  unfolding re_fence_def by (simp del: matches_at.simps)




lemma replace_id: "\<not> occurs p s \<Longrightarrow> replace_all_empty p s = s"
proof (induction s)
  case Nil then show ?case by (cases p) simp_all
next
  case (Cons c cs) then show ?case by (cases p) auto
qed

lemma matches_fence_sql_imp: "matches_at re_fence_sql s \<Longrightarrow> matches_at re_fence s"
  unfolding re_fence_sql_def re_fence_def
  by (cases s; cases "tl s"; cases "tl (tl s)"; simp)







lemma trim_fixed:
  assumes "s = [] \<or> \<not> is_js_space (hd s) \<and> \<not> is_js_space (last s)"
  shows "trim s = s"
proof (cases "s = []")
  case True then show ?thesis by (simp add: trim_def)
next
  case False
  with assms have h: "\<not> is_js_space (hd s)" and l: "\<not> is_js_space (last s)" by simp_all
  from False h have 1: "dropWhile is_js_space s = s"
    by (cases s) simp_all
  from False l have 2: "dropWhile is_js_space (rev s) = rev s"
    by (cases "rev s") (simp_all add: last_rev[symmetric] hd_rev)
  show ?thesis by (simp add: trim_def 1 2)
qed





lemma space_not_backtick: "is_js_space c \<Longrightarrow> c \<noteq> backtick"
  by (auto simp: is_js_space_def backtick_def)

lemma ascii_fence: "ascii ''```'' = [backtick, backtick, backtick]"
  by (simp add: ascii_def backtick_def)

lemma ascii_fence_sql: "ascii ''```sql'' = [backtick, backtick, backtick, 0x73, 0x71, 0x6C]"
  by (simp add: ascii_def backtick_def)

lemma fence_sql_hit:
  "replace_all_empty re_fence_sql (backtick # backtick # backtick # 0x73 # 0x71 # 0x6C # r) =
   replace_all_empty re_fence_sql r"
  by (simp add: re_fence_sql_def lit_def lit_ci_def)

lemma matches_fence_sql_4th:
  "matches_at re_fence_sql (a # b # c # d # r) \<Longrightarrow> d \<noteq> backtick"
  by (auto simp: re_fence_sql_def lit_def lit_ci_def backtick_def)

lemma matches_fence_sql_len:
  "matches_at re_fence_sql s \<Longrightarrow> \<exists>a b c d r. s = a # b # c # d # r"
  unfolding re_fence_sql_def
  by (cases s; cases "tl s"; cases "tl (tl s)"; cases "tl (tl (tl s))"; simp)

lemma no_fence_sql_before_close:
  assumes "\<not> occurs re_fence inner"
  shows "\<not> occurs re_fence_sql (inner @ [backtick, backtick, backtick])"
  using assms
proof (induction inner)
  case Nil
  show ?case by (simp add: re_fence_sql_def)
next
  case (Cons c cs)
  then have ih: "\<not> occurs re_fence_sql (cs @ [backtick, backtick, backtick])" by simp
  have "\<not> matches_at re_fence_sql (c # cs @ [backtick, backtick, backtick])"
  proof
    assume m: "matches_at re_fence_sql (c # cs @ [backtick, backtick, backtick])"
    then have m3: "matches_at re_fence (c # cs @ [backtick, backtick, backtick])"
      by (rule matches_fence_sql_imp)
    from Cons.prems have nm: "\<not> matches_at re_fence (c # cs)" by simp
    show False
    proof (cases cs)
      case Nil
      with m show False by (auto dest: matches_fence_sql_4th)
    next
      case c1: (Cons d ds)
      show False
      proof (cases ds)
        case Nil
        with m c1 show False by (auto dest: matches_fence_sql_4th)
      next
        case (Cons e es)
        with m3 c1 have "matches_at re_fence (c # cs)"
          by (simp add: re_fence_def)
        with nm show False by simp
      qed
    qed
  qed
  with ih show ?case by simp
qed

lemma fence_sql_removed:
  assumes "\<not> occurs re_fence inner"
  shows "replace_all_empty re_fence_sql (ascii ''```sql'' @ inner @ ascii ''```'') =
         inner @ [backtick, backtick, backtick]"
proof -
  have "replace_all_empty re_fence_sql (inner @ [backtick, backtick, backtick]) =
        inner @ [backtick, backtick, backtick]"
    using assms by (intro replace_id no_fence_sql_before_close)
  then show ?thesis by (simp add: ascii_fence ascii_fence_sql fence_sql_hit)
qed

lemma close_fence_removed:
  assumes "\<not> occurs re_fence inner"
  shows "replace_all_empty re_fence (inner @ [backtick, backtick, backtick]) = inner"
  using assms
proof (induction inner)
  case Nil
  show ?case by (simp add: fence_hit fence_Nil)
next
  case (Cons c cs)
  then have ih: "replace_all_empty re_fence (cs @ [backtick, backtick, backtick]) = cs"
    and nm: "\<not> matches_at re_fence (c # cs)" by simp_all
  show ?case
  proof (cases "matches_at re_fence (c # cs @ [backtick, backtick, backtick])")
    case False
    then show ?thesis using ih by (simp add: fence_miss)
  next
    case True
    then obtain r where r: "c # cs @ [backtick, backtick, backtick] = backtick # backtick # backtick # r"
      unfolding matches_fence by blast
    show ?thesis
    proof (cases cs)
      case Nil
      with r have "c = backtick" by simp
      with Nil show ?thesis
        by (simp add: fence_hit fence_miss matches_fence fence_Nil)
    next
      case c1: (Cons d ds)
      show ?thesis
      proof (cases ds)
        case Nil
        with r c1 have "c = backtick" "d = backtick" by simp_all
        with Nil c1 show ?thesis
          by (simp add: fence_hit fence_miss matches_fence fence_Nil)
      next
        case (Cons e es)
        with r c1 have "matches_at re_fence (c # cs)" unfolding matches_fence by simp
        with nm show ?thesis by simp
      qed
    qed
  qed
qed

lemma dropWhile_space_prefix:
  "\<forall>c\<in>set ws. is_js_space c \<Longrightarrow> dropWhile is_js_space (ws @ s) = dropWhile is_js_space s"
  by (simp add: dropWhile_append2)

lemma trim_space_prefix: "\<forall>c\<in>set ws. is_js_space c \<Longrightarrow> trim (ws @ s) = trim s"
  by (simp add: trim_def dropWhile_space_prefix)

lemma trim_space_suffix:
  assumes "\<forall>c\<in>set ws. is_js_space c"
  shows "trim (s @ ws) = trim s"
proof (cases "\<forall>c\<in>set s. is_js_space c")
  case True
  with assms have a: "dropWhile is_js_space (s @ ws) = []" by auto
  from True have b: "dropWhile is_js_space s = []" by auto
  show ?thesis unfolding trim_def a b by simp
next
  case False
  then obtain x where "x \<in> set s" "\<not> is_js_space x" by blast
  then have "dropWhile is_js_space (s @ ws) = dropWhile is_js_space s @ ws"
    by (rule dropWhile_append1)
  moreover have "dropWhile is_js_space (rev ws @ t) = dropWhile is_js_space t" for t
    using assms by (intro dropWhile_space_prefix) simp
  ultimately show ?thesis unfolding trim_def by (simp only: rev_append)
qed

lemma cleanSQL_fenced:
  assumes "\<not> occurs re_fence inner"
  shows "cleanSQL (ascii ''```sql'' @ inner @ ascii ''```'') = trim inner"
  using assms by (simp add: cleanSQL_def fence_sql_removed close_fence_removed)

lemma trim_fenced:
  assumes "\<forall>c\<in>set ws1. is_js_space c" "\<forall>c\<in>set ws2. is_js_space c"
  shows "trim (ws1 @ ascii ''```sql'' @ inner @ ascii ''```'' @ ws2) =
         ascii ''```sql'' @ inner @ ascii ''```''"
proof -
  let ?f = "ascii ''```sql'' @ inner @ ascii ''```''"
  have "trim (ws1 @ ?f @ ws2) = trim (?f @ ws2)" using assms(1) by (rule trim_space_prefix)
  also have "\<dots> = trim ?f" using assms(2) by (rule trim_space_suffix)
  also have "\<dots> = ?f"
  proof (rule trim_fixed)
    have "hd ?f = backtick" by (simp add: ascii_fence_sql)
    moreover have "last ?f = backtick" by (simp add: ascii_fence)
    ultimately show "?f = [] \<or> \<not> is_js_space (hd ?f) \<and> \<not> is_js_space (last ?f)"
      using space_not_backtick by auto
  qed
  finally show ?thesis by simp
qed

lemmas eval_strings =
  ascii_def trim_def cleanSQL_def re_fence_def re_fence_sql_def lit_def lit_ci_def
  backtick_def is_js_space_def













section \<open>Properties of the generator\<close>

lemma generateSQL_fst:
  "generateSQL_prompt (number_text w) nlQuery = Inr prompt \<Longrightarrow>
   fst (generateSQL w nlQuery) = Inr (generateSQL_finish (llm w prompt))"
  by (simp add: generateSQL_def)

lemma first_candidate_text_reply: "first_candidate_text (provider_reply t) = JString t"
  by (simp add: first_candidate_text_def provider_reply_def opt_prop_def opt_index0_def)

lemmas eval_handler =
  handler_def generateSQL_def generateSQL_prompt_def generateSQL_finish_def fixed_world_def
  query_body_def first_candidate_text_reply finish_query_def query_ok_def execution_failed_def
  generation_failed_def missing_query_def

text \<open>
  C1 (as amended). When the first candidate's text is a SQL string that holds no
  triple backtick, wrapped in an opening fence \<open>```sql\<close> and a closing fence \<open>```\<close>,
  with white space around the whole, \<open>generateSQL\<close> returns the text between the fences
  with its surrounding white space trimmed.
\<close>
theorem generateSQL_strips_fences:
  assumes "generateSQL_prompt (number_text w) nlQuery = Inr prompt"
    and "llm w prompt = HttpOk data"
    and "first_candidate_text data =
           JString (ws1 @ ascii ''```sql'' @ inner @ ascii ''```'' @ ws2)"
    and "list_all is_js_space ws1" and "list_all is_js_space ws2"
    and "\<not> occurs re_fence inner"
  shows "fst (generateSQL w nlQuery) = Inr (Some (trim inner))"
proof -
  let ?f = "ascii ''```sql'' @ inner @ ascii ''```''"
  have t: "trim (ws1 @ ascii ''```sql'' @ inner @ ascii ''```'' @ ws2) = ?f"
    using assms(4,5) by (intro trim_fenced) (simp_all add: list_all_iff)
  have ne: "?f \<noteq> []" by (simp add: ascii_fence)
  have "generateSQL_finish (HttpOk data) = Some (cleanSQL ?f)"
    using ne by (simp add: generateSQL_finish_def assms(3) t)
  then show ?thesis
    using assms(1,2,6) by (simp add: generateSQL_fst cleanSQL_fenced)
qed

theorem generateSQL_strips_fences_witness:
  "list_all is_js_space (ascii '' '') \<and> \<not> occurs re_fence (ascii '' SELECT 1 '') \<and>
   fst (generateSQL
         (fixed_world (HttpOk (provider_reply (ascii '' ```sql SELECT 1 ``` ''))) (DbRows (JArray [])))
         (JString (ascii ''one''))) = Inr (Some (ascii ''SELECT 1''))"
  using generateSQL_strips_fences
    [of "fixed_world (HttpOk (provider_reply (ascii '' ```sql SELECT 1 ``` ''))) (DbRows (JArray []))"
        "JString (ascii ''one'')" "schemaDescription @ [0x0A] @ ascii ''User: '' @ ascii ''one''"
        "provider_reply (ascii '' ```sql SELECT 1 ``` '')"
        "ascii '' ''" "ascii '' SELECT 1 ''" "ascii '' ''"]
  by (simp add: generateSQL_prompt_def fixed_world_def first_candidate_text_reply eval_strings)

text \<open>
  Without the restriction the statement fails: a triple backtick inside the fenced SQL
  (here a quoted MySQL identifier) is deleted with the fences.
\<close>
theorem fenced_body_with_fence_counterexample:
  "fst (generateSQL
         (fixed_world (HttpOk (provider_reply
            (ascii ''```sql'' @ ascii '' SELECT ```a``` FROM t '' @ ascii ''```'')))
            (DbRows (JArray [])))
         (JString (ascii ''one''))) = Inr (Some (ascii ''SELECT a FROM t'')) \<and>
   trim (ascii '' SELECT ```a``` FROM t '') = ascii ''SELECT ```a``` FROM t'' \<and>
   ascii ''SELECT a FROM t'' \<noteq> ascii ''SELECT ```a``` FROM t''"
  by (simp add: generateSQL_def generateSQL_prompt_def fixed_world_def generateSQL_finish_def
      first_candidate_text_reply eval_strings)

lemma first_candidate_text_empty_reply: "first_candidate_text empty_reply = JUndefined"
  by (simp add: first_candidate_text_def empty_reply_def opt_prop_def opt_index0_def)

text \<open>
  C6. When the first candidate's text is absent (\<open>undefined\<close> or \<open>null\<close> at the end of
  the optional chain) or is a string that is empty after trimming, \<open>generateSQL\<close>
  returns \<open>null\<close>, not a string; it returns \<open>null\<close> as well when the HTTP call to the
  provider fails.
\<close>
theorem empty_completion_is_null:
  "(generateSQL_prompt (number_text w) nlQuery = Inr prompt \<and> llm w prompt = HttpOk data \<and>
    (nullish (first_candidate_text data) \<or>
     first_candidate_text data = JString s \<and> trim s = []) \<longrightarrow>
      fst (generateSQL w nlQuery) = Inr None) \<and>
   (generateSQL_prompt (number_text w') nlQuery' = Inr prompt' \<and> llm w' prompt' = HttpFailed \<longrightarrow>
      fst (generateSQL w' nlQuery') = Inr None)"
proof (intro conjI impI)
  assume a: "generateSQL_prompt (number_text w) nlQuery = Inr prompt \<and> llm w prompt = HttpOk data \<and>
    (nullish (first_candidate_text data) \<or>
     first_candidate_text data = JString s \<and> trim s = [])"
  then have "trimmed_or_empty (first_candidate_text data) = Inr []"
    by (cases "first_candidate_text data") auto
  then have "generateSQL_finish (HttpOk data) = None"
    by (simp add: generateSQL_finish_def)
  with a show "fst (generateSQL w nlQuery) = Inr None"
    by (simp add: generateSQL_fst)
next
  assume "generateSQL_prompt (number_text w') nlQuery' = Inr prompt' \<and> llm w' prompt' = HttpFailed"
  then show "fst (generateSQL w' nlQuery') = Inr None"
    by (simp add: generateSQL_fst generateSQL_finish_def)
qed

theorem empty_completion_is_null_witness:
  "first_candidate_text empty_reply = JUndefined \<and>
   fst (generateSQL (fixed_world (HttpOk empty_reply) (DbRows (JArray [])))
        (JString (ascii ''how many jobs''))) = Inr None \<and>
   trim (ascii ''   '') = [] \<and>
   fst (generateSQL (fixed_world (HttpOk (provider_reply (ascii ''   ''))) (DbRows (JArray [])))
        (JString (ascii ''how many jobs''))) = Inr None \<and>
   fst (generateSQL (fixed_world HttpFailed (DbRows (JArray [])))
        (JString (ascii ''how many jobs''))) = Inr None"
  using empty_completion_is_null
    [of "fixed_world (HttpOk empty_reply) (DbRows (JArray []))"
        "JString (ascii ''how many jobs'')"
        "schemaDescription @ [0x0A] @ ascii ''User: '' @ ascii ''how many jobs''"
        "empty_reply" "[]"
        "fixed_world HttpFailed (DbRows (JArray []))"
        "JString (ascii ''how many jobs'')"
        "schemaDescription @ [0x0A] @ ascii ''User: '' @ ascii ''how many jobs''"]
    empty_completion_is_null
    [of "fixed_world (HttpOk (provider_reply (ascii ''   ''))) (DbRows (JArray []))"
        "JString (ascii ''how many jobs'')"
        "schemaDescription @ [0x0A] @ ascii ''User: '' @ ascii ''how many jobs''"
        "provider_reply (ascii ''   '')" "ascii ''   ''"
        "fixed_world HttpFailed (DbRows (JArray []))"
        "JString (ascii ''how many jobs'')"
        "schemaDescription @ [0x0A] @ ascii ''User: '' @ ascii ''how many jobs''"]
  by (simp add: eval_handler first_candidate_text_empty_reply eval_strings)

section \<open>Properties of the handler\<close>

lemma generateSQL_cases:
  obtains (throws) e where "generateSQL_prompt (number_text w) v = Inl e"
      "generateSQL w v = (Inl e, [])"
  | (calls) prompt where "generateSQL_prompt (number_text w) v = Inr prompt"
      "generateSQL w v = (Inr (generateSQL_finish (llm w prompt)), [LLMCall prompt])"
  by (cases "generateSQL_prompt (number_text w) v") (simp_all add: generateSQL_def)

lemma handler_object:
  assumes "req_body = JObject kvs" "map_of kvs (ascii ''nlQuery'') = Some v" "truthy v"
  shows "handler w req_body =
     (case generateSQL w v of
        (Inl e, calls) \<Rightarrow> (Unhandled e, calls)
      | (Inr sqlQuery, calls) \<Rightarrow>
          (case sqlQuery of
             None \<Rightarrow> (Responded generation_failed, calls)
           | Some sql \<Rightarrow>
               if sql = [] then (Responded generation_failed, calls)
               else (Responded (finish_query sql (db w sql)), calls @ [DBCall sql])))"
  using assms by (simp add: handler_def)

lemma handler_failed:
  assumes "req_body = JObject kvs" "map_of kvs (ascii ''nlQuery'') = Some v" "truthy v"
    and "fst (generateSQL w v) = Inr None \<or> fst (generateSQL w v) = Inr (Some [])"
  shows "fst (handler w req_body) = Responded generation_failed \<and>
         (\<exists>prompt. snd (handler w req_body) = [LLMCall prompt])"
proof (cases w v rule: generateSQL_cases)
  case (throws e)
  with assms(4) show ?thesis by simp
next
  case (calls prompt)
  with assms(4) have "generateSQL_finish (llm w prompt) = None \<or>
      generateSQL_finish (llm w prompt) = Some []" by simp
  then show ?thesis
    unfolding handler_object[OF assms(1-3)] calls(2) by auto
qed

lemma handler_executes:
  assumes "req_body = JObject kvs" "map_of kvs (ascii ''nlQuery'') = Some v" "truthy v"
    and "fst (generateSQL w v) = Inr (Some sql)" "sql \<noteq> []"
  shows "fst (handler w req_body) = Responded (finish_query sql (db w sql))"
proof (cases w v rule: generateSQL_cases)
  case (throws e)
  with assms(4) show ?thesis by simp
next
  case (calls prompt)
  with assms(4) have "generateSQL_finish (llm w prompt) = Some sql" by simp
  then show ?thesis
    unfolding handler_object[OF assms(1-3)] calls(2) using assms(5) by simp
qed

lemma handler_calls:
  "snd (handler w b) = [] \<or>
   (\<exists>prompt. snd (handler w b) = [LLMCall prompt]) \<or>
   (\<exists>prompt data sql. snd (handler w b) = [LLMCall prompt, DBCall sql] \<and> sql \<noteq> [] \<and>
      llm w prompt = HttpOk data \<and> generateSQL_finish (HttpOk data) = Some sql)"
proof (cases "nullish b \<or> \<not> truthy (get_prop b (ascii ''nlQuery''))")
  case True
  then show ?thesis by (auto simp: handler_def)
next
  case False
  let ?v = "get_prop b (ascii ''nlQuery'')"
  have h: "handler w b =
     (case generateSQL w ?v of
        (Inl e, calls) \<Rightarrow> (Unhandled e, calls)
      | (Inr sqlQuery, calls) \<Rightarrow>
          (case sqlQuery of
             None \<Rightarrow> (Responded generation_failed, calls)
           | Some sql \<Rightarrow>
               if sql = [] then (Responded generation_failed, calls)
               else (Responded (finish_query sql (db w sql)), calls @ [DBCall sql])))"
    using False by (simp add: handler_def)
  show ?thesis
  proof (cases w ?v rule: generateSQL_cases)
    case (throws e)
    then show ?thesis unfolding h by simp
  next
    case (calls prompt)
    show ?thesis
    proof (cases "generateSQL_finish (llm w prompt)")
      case None
      then show ?thesis unfolding h calls(2) by simp
    next
      case (Some sql)
      then obtain data where d: "llm w prompt = HttpOk data"
        by (cases "llm w prompt") (simp_all add: generateSQL_finish_def)
      with Some show ?thesis unfolding h calls(2) by auto
    qed
  qed
qed




text \<open>
  C2. For a request with a non-empty (truthy) \<open>nlQuery\<close>, when \<open>generateSQL\<close> returns
  \<open>null\<close> the handler answers 500 with the body \<open>{"error": "AI failed to generate SQL"}\<close>
  and its only outbound call is the one to the provider. And whenever the handler does
  call the database, that call comes second, after a provider call that resolved and
  from which \<open>generateSQL\<close> produced the statement passed to the database.
\<close>
theorem generation_failure_skips_database:
  "(req_body = JObject kvs \<and> map_of kvs (ascii ''nlQuery'') = Some v \<and> truthy v \<and>
    fst (generateSQL w v) = Inr None \<longrightarrow>
      fst (handler w req_body) =
        Responded \<lparr>status = 500,
          body = JObject [(ascii ''error'', JString (ascii ''AI failed to generate SQL''))]\<rparr> \<and>
      (\<exists>prompt. snd (handler w req_body) = [LLMCall prompt])) \<and>
   (DBCall sql \<in> set (snd (handler w' req_body')) \<longrightarrow>
      (\<exists>prompt data. snd (handler w' req_body') = [LLMCall prompt, DBCall sql] \<and>
         llm w' prompt = HttpOk data \<and> generateSQL_finish (HttpOk data) = Some sql))"
proof (intro conjI impI)
  assume a: "req_body = JObject kvs \<and> map_of kvs (ascii ''nlQuery'') = Some v \<and> truthy v \<and>
    fst (generateSQL w v) = Inr None"
  then have "fst (handler w req_body) = Responded generation_failed \<and>
         (\<exists>prompt. snd (handler w req_body) = [LLMCall prompt])"
    by (intro handler_failed[of req_body kvs v w]) simp_all
  then show "fst (handler w req_body) =
        Responded \<lparr>status = 500,
          body = JObject [(ascii ''error'', JString (ascii ''AI failed to generate SQL''))]\<rparr>"
    and "\<exists>prompt. snd (handler w req_body) = [LLMCall prompt]"
    by (simp_all add: generation_failed_def)
next
  assume "DBCall sql \<in> set (snd (handler w' req_body'))"
  with handler_calls[of w' req_body']
  show "\<exists>prompt data. snd (handler w' req_body') = [LLMCall prompt, DBCall sql] \<and>
         llm w' prompt = HttpOk data \<and> generateSQL_finish (HttpOk data) = Some sql"
    by auto
qed

theorem generation_failure_skips_database_witness:
  "truthy (JString (ascii ''how many jobs'')) \<and>
   fst (generateSQL (fixed_world HttpFailed (DbRows (JArray []))) (JString (ascii ''how many jobs''))) = Inr None \<and>
   handler (fixed_world HttpFailed (DbRows (JArray []))) (query_body (JString (ascii ''how many jobs''))) =
     (Responded \<lparr>status = 500,
        body = JObject [(ascii ''error'', JString (ascii ''AI failed to generate SQL''))]\<rparr>,
      [LLMCall (schemaDescription @ [0x0A] @ ascii ''User: '' @ ascii ''how many jobs'')]) \<and>
   snd (handler (fixed_world (HttpOk (provider_reply (ascii ''SELECT 1''))) (DbRows (JArray [])))
          (query_body (JString (ascii ''how many jobs'')))) =
     [LLMCall (schemaDescription @ [0x0A] @ ascii ''User: '' @ ascii ''how many jobs''),
      DBCall (ascii ''SELECT 1'')]"
  using generation_failure_skips_database
    [of "query_body (JString (ascii ''how many jobs''))"
        "[(ascii ''nlQuery'', JString (ascii ''how many jobs''))]"
        "JString (ascii ''how many jobs'')"
        "fixed_world HttpFailed (DbRows (JArray []))"
        "ascii ''SELECT 1''"
        "fixed_world (HttpOk (provider_reply (ascii ''SELECT 1''))) (DbRows (JArray []))"
        "query_body (JString (ascii ''how many jobs''))"]
  by (simp add: eval_handler eval_strings)

text \<open>
  C4. When generation succeeds (\<open>generateSQL\<close> returns a non-empty string) and the
  database query succeeds, the handler answers 200 with a body whose \<open>sql\<close> field is the
  generated string itself and whose \<open>result\<close> field is the row set the database returned.
\<close>
theorem success_returns_sql_and_rows:
  assumes "req_body = JObject kvs" and "map_of kvs (ascii ''nlQuery'') = Some v" and "truthy v"
    and "fst (generateSQL w v) = Inr (Some sql)" and "sql \<noteq> []"
    and "db w sql = DbRows rows"
  shows "fst (handler w req_body) =
     Responded \<lparr>status = 200,
       body = JObject [(ascii ''sql'', JString sql), (ascii ''result'', rows)]\<rparr>"
  using handler_executes[OF assms(1-5)] assms(6)
  by (simp add: finish_query_def query_ok_def)

theorem success_returns_sql_and_rows_witness:
  "truthy (JString (ascii ''how many jobs'')) \<and>
   fst (generateSQL (fixed_world (HttpOk (provider_reply (ascii ''SELECT 1'')))
          (DbRows (JArray [JObject [(ascii ''1'', JNumber (Finite 1))]])))
        (JString (ascii ''how many jobs''))) = Inr (Some (ascii ''SELECT 1'')) \<and>
   fst (handler (fixed_world (HttpOk (provider_reply (ascii ''SELECT 1'')))
          (DbRows (JArray [JObject [(ascii ''1'', JNumber (Finite 1))]])))
        (query_body (JString (ascii ''how many jobs'')))) =
     Responded \<lparr>status = 200,
       body = JObject [(ascii ''sql'', JString (ascii ''SELECT 1'')),
                       (ascii ''result'', JArray [JObject [(ascii ''1'', JNumber (Finite 1))]])]\<rparr>"
  using success_returns_sql_and_rows
    [of "query_body (JString (ascii ''how many jobs''))"
        "[(ascii ''nlQuery'', JString (ascii ''how many jobs''))]"
        "JString (ascii ''how many jobs'')"
        "fixed_world (HttpOk (provider_reply (ascii ''SELECT 1'')))
          (DbRows (JArray [JObject [(ascii ''1'', JNumber (Finite 1))]]))"
        "ascii ''SELECT 1''"
        "JArray [JObject [(ascii ''1'', JNumber (Finite 1))]]"]
  by (simp add: eval_handler eval_strings)

text \<open>
  C5. When generation succeeds but the database query fails, the handler answers 500
  with \<open>error\<close> = \<open>"SQL Execution Failed"\<close>, \<open>details\<close> = the driver's message as it came,
  and \<open>sql\<close> = the generated string that was attempted.
\<close>
theorem execution_failure_reports_sql_and_message:
  assumes "req_body = JObject kvs" and "map_of kvs (ascii ''nlQuery'') = Some v" and "truthy v"
    and "fst (generateSQL w v) = Inr (Some sql)" and "sql \<noteq> []"
    and "db w sql = DbFailed message"
  shows "fst (handler w req_body) =
     Responded \<lparr>status = 500,
       body = JObject [(ascii ''error'', JString (ascii ''SQL Execution Failed'')),
                       (ascii ''details'', JString message),
                       (ascii ''sql'', JString sql)]\<rparr>"
  using handler_executes[OF assms(1-5)] assms(6)
  by (simp add: finish_query_def execution_failed_def)

theorem execution_failure_reports_sql_and_message_witness:
  "truthy (JString (ascii ''how many jobs'')) \<and>
   fst (generateSQL (fixed_world (HttpOk (provider_reply (ascii ''SELECT nothing'')))
          (DbFailed (ascii ''Unknown column'')))
        (JString (ascii ''how many jobs''))) = Inr (Some (ascii ''SELECT nothing'')) \<and>
   fst (handler (fixed_world (HttpOk (provider_reply (ascii ''SELECT nothing'')))
          (DbFailed (ascii ''Unknown column'')))
        (query_body (JString (ascii ''how many jobs'')))) =
     Responded \<lparr>status = 500,
       body = JObject [(ascii ''error'', JString (ascii ''SQL Execution Failed'')),
                       (ascii ''details'', JString (ascii ''Unknown column'')),
                       (ascii ''sql'', JString (ascii ''SELECT nothing''))]\<rparr>"
  using execution_failure_reports_sql_and_message
    [of "query_body (JString (ascii ''how many jobs''))"
        "[(ascii ''nlQuery'', JString (ascii ''how many jobs''))]"
        "JString (ascii ''how many jobs'')"
        "fixed_world (HttpOk (provider_reply (ascii ''SELECT nothing'')))
          (DbFailed (ascii ''Unknown column''))"
        "ascii ''SELECT nothing''"
        "ascii ''Unknown column''"]
  by (simp add: eval_handler eval_strings)

text \<open>
  C7. The database is called only with a non-empty SQL string; when the candidate SQL
  is \<open>null\<close> or empty, the handler gives the generation-failure response instead and
  makes no database call.
\<close>
theorem database_only_sees_nonempty_sql:
  "(DBCall sql \<in> set (snd (handler w req_body)) \<longrightarrow> sql \<noteq> []) \<and>
   (req_body' = JObject kvs \<and> map_of kvs (ascii ''nlQuery'') = Some v \<and> truthy v \<and>
    (fst (generateSQL w' v) = Inr None \<or> fst (generateSQL w' v) = Inr (Some [])) \<longrightarrow>
      fst (handler w' req_body') =
        Responded \<lparr>status = 500,
          body = JObject [(ascii ''error'', JString (ascii ''AI failed to generate SQL''))]\<rparr> \<and>
      (\<exists>prompt. snd (handler w' req_body') = [LLMCall prompt]))"
proof (intro conjI impI)
  assume "DBCall sql \<in> set (snd (handler w req_body))"
  with handler_calls[of w req_body] show "sql \<noteq> []" by auto
next
  assume a: "req_body' = JObject kvs \<and> map_of kvs (ascii ''nlQuery'') = Some v \<and> truthy v \<and>
    (fst (generateSQL w' v) = Inr None \<or> fst (generateSQL w' v) = Inr (Some []))"
  then have "fst (handler w' req_body') = Responded generation_failed \<and>
         (\<exists>prompt. snd (handler w' req_body') = [LLMCall prompt])"
    by (intro handler_failed[of req_body' kvs v w']) simp_all
  then show "fst (handler w' req_body') =
        Responded \<lparr>status = 500,
          body = JObject [(ascii ''error'', JString (ascii ''AI failed to generate SQL''))]\<rparr>"
    and "\<exists>prompt. snd (handler w' req_body') = [LLMCall prompt]"
    by (simp_all add: generation_failed_def)
qed

theorem database_only_sees_nonempty_sql_witness:
  "DBCall (ascii ''SELECT 1'') \<in>
     set (snd (handler (fixed_world (HttpOk (provider_reply (ascii ''SELECT 1''))) (DbRows (JArray [])))
            (query_body (JString (ascii ''how many jobs''))))) \<and>
   ascii ''SELECT 1'' \<noteq> [] \<and>
   fst (generateSQL (fixed_world (HttpOk (provider_reply (ascii ''```sql ```''))) (DbRows (JArray [])))
        (JString (ascii ''how many jobs''))) = Inr (Some []) \<and>
   handler (fixed_world (HttpOk (provider_reply (ascii ''```sql ```''))) (DbRows (JArray [])))
     (query_body (JString (ascii ''how many jobs''))) =
     (Responded \<lparr>status = 500,
        body = JObject [(ascii ''error'', JString (ascii ''AI failed to generate SQL''))]\<rparr>,
      [LLMCall (schemaDescription @ [0x0A] @ ascii ''User: '' @ ascii ''how many jobs'')])"
  using database_only_sees_nonempty_sql
    [of "ascii ''SELECT 1''"
        "fixed_world (HttpOk (provider_reply (ascii ''SELECT 1''))) (DbRows (JArray []))"
        "query_body (JString (ascii ''how many jobs''))"
        "query_body (JString (ascii ''how many jobs''))"
        "[(ascii ''nlQuery'', JString (ascii ''how many jobs''))]"
        "JString (ascii ''how many jobs'')"
        "fixed_world (HttpOk (provider_reply (ascii ''```sql ```''))) (DbRows (JArray []))"]
  by (simp add: eval_handler eval_strings)

text \<open>
  C9. The missing-query check tests falsiness, not emptiness after trimming: a non-empty
  string \<open>nlQuery\<close>, even one of white space only, is not rejected with 400 and the first
  outbound call is the provider call with that text in the prompt; the falsy values
  \<open>""\<close>, \<open>0\<close>, \<open>false\<close> and \<open>null\<close> are rejected with 400 before any call.
\<close>
theorem missing_query_check_is_falsiness:
  "(req_body = JObject kvs \<and> map_of kvs (ascii ''nlQuery'') = Some (JString s) \<and> s \<noteq> [] \<longrightarrow>
      fst (handler w req_body) \<noteq> Responded missing_query \<and>
      (\<exists>r. fst (handler w req_body) = Responded r \<and> status r \<noteq> 400) \<and>
      take 1 (snd (handler w req_body)) =
        [LLMCall (schemaDescription @ [0x0A] @ ascii ''User: '' @ s)]) \<and>
   (req_body' = JObject kvs' \<and> map_of kvs' (ascii ''nlQuery'') = Some v \<and>
    (v = JString [] \<or> v = JNumber (Finite 0) \<or> v = JBool False \<or> v = JNull) \<longrightarrow>
      handler w req_body' =
        (Responded \<lparr>status = 400,
           body = JObject [(ascii ''error'', JString (ascii ''Missing natural query''))]\<rparr>, []))"
proof (intro conjI impI)
  assume a: "req_body = JObject kvs \<and> map_of kvs (ascii ''nlQuery'') = Some (JString s) \<and> s \<noteq> []"
  let ?p = "schemaDescription @ [0x0A] @ ascii ''User: '' @ s"
  have h: "handler w req_body =
     (case generateSQL_finish (llm w ?p) of
        None \<Rightarrow> (Responded generation_failed, [LLMCall ?p])
      | Some sql \<Rightarrow>
          if sql = [] then (Responded generation_failed, [LLMCall ?p])
          else (Responded (finish_query sql (db w sql)), [LLMCall ?p, DBCall sql]))"
    using a by (simp add: handler_def generateSQL_def generateSQL_prompt_def split: option.splits)
  have st: "status (finish_query sql out) \<noteq> 400" for sql out
    by (cases out) (simp_all add: finish_query_def query_ok_def execution_failed_def)
  have st': "finish_query sql out \<noteq> missing_query" for sql out
    using st[of sql out] by (auto simp: missing_query_def)
  show "fst (handler w req_body) \<noteq> Responded missing_query"
    unfolding h using st'
    by (auto simp: generation_failed_def missing_query_def split: option.splits)
  show "\<exists>r. fst (handler w req_body) = Responded r \<and> status r \<noteq> 400"
    unfolding h using st
    by (auto simp: generation_failed_def split: option.splits)
  show "take 1 (snd (handler w req_body)) = [LLMCall ?p]"
    unfolding h by (auto split: option.splits)
next
  assume "req_body' = JObject kvs' \<and> map_of kvs' (ascii ''nlQuery'') = Some v \<and>
    (v = JString [] \<or> v = JNumber (Finite 0) \<or> v = JBool False \<or> v = JNull)"
  then show "handler w req_body' =
        (Responded \<lparr>status = 400,
           body = JObject [(ascii ''error'', JString (ascii ''Missing natural query''))]\<rparr>, [])"
    by (auto simp: handler_def missing_query_def)
qed

theorem missing_query_check_is_falsiness_witness:
  "list_all is_js_space (ascii '' '') \<and>
   handler (fixed_world (HttpOk (provider_reply (ascii ''SELECT 1''))) (DbRows (JArray [])))
     (query_body (JString (ascii '' ''))) =
     (Responded \<lparr>status = 200,
        body = JObject [(ascii ''sql'', JString (ascii ''SELECT 1'')), (ascii ''result'', JArray [])]\<rparr>,
      [LLMCall (schemaDescription @ [0x0A] @ ascii ''User: '' @ ascii '' ''), DBCall (ascii ''SELECT 1'')]) \<and>
   handler (fixed_world (HttpOk (provider_reply (ascii ''SELECT 1''))) (DbRows (JArray [])))
     (query_body (JNumber (Finite 0))) =
     (Responded \<lparr>status = 400,
        body = JObject [(ascii ''error'', JString (ascii ''Missing natural query''))]\<rparr>, [])"
  using missing_query_check_is_falsiness
    [of "query_body (JString (ascii '' ''))" "[(ascii ''nlQuery'', JString (ascii '' ''))]"
        "ascii '' ''"
        "fixed_world (HttpOk (provider_reply (ascii ''SELECT 1''))) (DbRows (JArray []))"
        "query_body (JNumber (Finite 0))" "[(ascii ''nlQuery'', JNumber (Finite 0))]"
        "JNumber (Finite 0)"]
  by (simp add: eval_handler eval_strings)

section \<open>Properties of requests in flight together\<close>

lemma step_key: "api_key (fst (step num_text srv t e)) = api_key srv"
  by (cases "(num_text, srv, t, e)" rule: step.cases) simp_all

lemma step_task:
  "api_key srv = api_key srv' \<Longrightarrow> snd (step num_text srv t e) = snd (step num_text srv' t e)"
  by (cases "(num_text, srv, t, e)" rule: step.cases) (auto simp: Let_def split: sum.splits)

lemma alone_Cons:
  "alone num_text (srv, t) (e # es) = alone num_text (step num_text srv t e) es"
  by (simp add: alone_def)

lemma alone_task:
  "api_key srv = api_key srv' \<Longrightarrow>
   snd (alone num_text (srv, t) es) = snd (alone num_text (srv', t) es)"
proof (induction es arbitrary: srv srv' t)
  case Nil
  show ?case by (simp add: alone_def)
next
  case (Cons e es)
  obtain s1 t1 where 1: "step num_text srv t e = (s1, t1)" by (cases "step num_text srv t e")
  obtain s2 t2 where 2: "step num_text srv' t e = (s2, t2)" by (cases "step num_text srv' t e")
  from step_task[OF Cons.prems, of num_text t e] 1 2 have "t1 = t2" by simp
  moreover from step_key[of num_text srv t e] step_key[of num_text srv' t e] 1 2 Cons.prems
  have "api_key s1 = api_key s2" by simp
  ultimately show ?case
    using Cons.IH[of s1 s2 t1] by (simp add: alone_Cons 1 2)
qed

lemma interleave_projects:
  "fst (snd (interleave num_text (srv, a, b) evs)) =
     snd (alone num_text (srv, a) (own_events First evs)) \<and>
   snd (snd (interleave num_text (srv, a, b) evs)) =
     snd (alone num_text (srv, b) (own_events Second evs))"
proof (induction evs arbitrary: srv a b)
  case Nil
  show ?case by (simp add: interleave_def alone_def own_events_def)
next
  case (Cons ev evs)
  obtain i e where ev: "ev = (i, e)" by (cases ev)
  show ?case
  proof (cases i)
    case First
    obtain s1 a1 where 1: "step num_text srv a e = (s1, a1)" by (cases "step num_text srv a e")
    have k: "api_key s1 = api_key srv" using step_key[of num_text srv a e] 1 by simp
    have "interleave num_text (srv, a, b) (ev # evs) = interleave num_text (s1, a1, b) evs"
      by (simp add: interleave_def ev First 1)
    moreover have "own_events First (ev # evs) = e # own_events First evs"
      and "own_events Second (ev # evs) = own_events Second evs"
      by (simp_all add: own_events_def ev First)
    ultimately show ?thesis
      using Cons.IH[of s1 a1 b] alone_task[OF k, of num_text b "own_events Second evs"]
      by (simp add: alone_Cons 1)
  next
    case Second
    obtain s1 b1 where 1: "step num_text srv b e = (s1, b1)" by (cases "step num_text srv b e")
    have k: "api_key s1 = api_key srv" using step_key[of num_text srv b e] 1 by simp
    have "interleave num_text (srv, a, b) (ev # evs) = interleave num_text (s1, a, b1) evs"
      by (simp add: interleave_def ev Second 1)
    moreover have "own_events Second (ev # evs) = e # own_events Second evs"
      and "own_events First (ev # evs) = own_events First evs"
      by (simp_all add: own_events_def ev Second)
    ultimately show ?thesis
      using Cons.IH[of s1 a b1] alone_task[OF k, of num_text a "own_events First evs"]
      by (simp add: alone_Cons 1)
  qed
qed

lemma cleanSQL_Nil: "cleanSQL [] = []"
  by (simp add: cleanSQL_def trim_def re_fence_def re_fence_sql_def)

lemma sql_field_of_finish:
  "get_prop (body (finish_query sql d)) (ascii ''sql'') = JString sql"
  by (cases d) (simp_all add: finish_query_def query_ok_def execution_failed_def ascii_def)

lemma alone_full_run:
  assumes "q \<noteq> []" and "first_candidate_text data = JString t" and "cleanSQL (trim t) \<noteq> []"
  shows "snd (alone num_text (srv, Arrived (query_body (JString q)))
                [Dispatch, LLMSettled (HttpOk data), DBSettled d]) =
         Done (Responded (finish_query (cleanSQL (trim t)) d))"
proof -
  from assms(3) have "trim t \<noteq> []" using cleanSQL_Nil by auto
  with assms show ?thesis
    by (simp add: alone_def query_body_def generateSQL_prompt_def generateSQL_finish_def)
qed

lemma alone_dispatch:
  assumes "q \<noteq> []"
  shows "snd (alone num_text (srv, Arrived (query_body (JString q))) [Dispatch]) =
         AwaitingLLM (api_key srv) (schemaDescription @ [0x0A] @ ascii ''User: '' @ q)"
  using assms by (simp add: alone_def query_body_def generateSQL_prompt_def)

lemma handler_as_task:
  "snd (serve w (serve w (serve w (srv, Arrived req_body)))) = Done (fst (handler w req_body))"
proof (cases "nullish req_body \<or> \<not> truthy (get_prop req_body (ascii ''nlQuery''))")
  case True
  then show ?thesis by (auto simp: handler_def)
next
  case False
  let ?v = "get_prop req_body (ascii ''nlQuery'')"
  show ?thesis
  proof (cases w ?v rule: generateSQL_cases)
    case (throws e)
    with False show ?thesis by (simp add: handler_def)
  next
    case (calls prompt)
    with False show ?thesis
      by (cases "generateSQL_finish (llm w prompt)") (simp_all add: handler_def)
  qed
qed

text \<open>
  C8. Two requests in flight together on one server do not affect each other. Under any
  interleaving of their steps, with any outcomes of their calls, each request stands
  where it stands when it runs alone on the same server with its own events, whatever
  the other request is, although both write to the shared console. The provider call of
  a request with a non-empty string \<open>nlQuery\<close> carries the prompt built from that
  \<open>nlQuery\<close>; and when its two calls have settled, the \<open>sql\<close> field of its response is the
  cleaned text of the provider's answer to its own call. By \<open>handler_as_task\<close> a task
  served by the world is the handler itself.
\<close>
theorem requests_do_not_interfere:
  "fst (snd (interleave num_text (srv, Arrived req1, Arrived req2) evs)) =
     snd (alone num_text (srv, Arrived req1) (own_events First evs)) \<and>
   snd (snd (interleave num_text (srv, Arrived req1, Arrived req2) evs)) =
     snd (alone num_text (srv, Arrived req2) (own_events Second evs)) \<and>
   (req1 = query_body (JString nlQuery1) \<and> nlQuery1 \<noteq> [] \<and> own_events First evs = [Dispatch] \<longrightarrow>
      fst (snd (interleave num_text (srv, Arrived req1, Arrived req2) evs)) =
        AwaitingLLM (api_key srv) (schemaDescription @ [0x0A] @ ascii ''User: '' @ nlQuery1)) \<and>
   (req1 = query_body (JString nlQuery1) \<and> nlQuery1 \<noteq> [] \<and>
    own_events First evs = [Dispatch, LLMSettled (HttpOk data), DBSettled d] \<and>
    first_candidate_text data = JString t \<and> cleanSQL (trim t) \<noteq> [] \<longrightarrow>
      (\<exists>r. fst (snd (interleave num_text (srv, Arrived req1, Arrived req2) evs)) =
             Done (Responded r) \<and>
           get_prop (body r) (ascii ''sql'') = JString (cleanSQL (trim t))))"
proof -
  note p = interleave_projects[of num_text srv "Arrived req1" "Arrived req2" evs]
  have 3: "fst (snd (interleave num_text (srv, Arrived req1, Arrived req2) evs)) =
        AwaitingLLM (api_key srv) (schemaDescription @ [0x0A] @ ascii ''User: '' @ nlQuery1)"
    if "req1 = query_body (JString nlQuery1) \<and> nlQuery1 \<noteq> [] \<and> own_events First evs = [Dispatch]"
    using that p by (simp add: alone_dispatch)
  have 4: "\<exists>r. fst (snd (interleave num_text (srv, Arrived req1, Arrived req2) evs)) =
             Done (Responded r) \<and>
           get_prop (body r) (ascii ''sql'') = JString (cleanSQL (trim t))"
    if "req1 = query_body (JString nlQuery1) \<and> nlQuery1 \<noteq> [] \<and>
        own_events First evs = [Dispatch, LLMSettled (HttpOk data), DBSettled d] \<and>
        first_candidate_text data = JString t \<and> cleanSQL (trim t) \<noteq> []"
    using that p by (simp add: alone_full_run sql_field_of_finish)
  from p 3 4 show ?thesis by blast
qed

theorem requests_do_not_interfere_witness:
  "own_events First
     [(Second, Dispatch), (First, Dispatch),
      (Second, LLMSettled (HttpOk (provider_reply (ascii ''```sql SELECT 2 ```'')))),
      (First, LLMSettled (HttpOk (provider_reply (ascii ''SELECT 1'')))),
      (Second, DBSettled (DbRows (JArray []))),
      (First, DBSettled (DbFailed (ascii ''gone'')))] =
     [Dispatch, LLMSettled (HttpOk (provider_reply (ascii ''SELECT 1''))),
      DBSettled (DbFailed (ascii ''gone''))] \<and>
   interleave (\<lambda>n. ascii ''0'')
     (\<lparr>api_key = JString (ascii ''k''), console = []\<rparr>,
      Arrived (query_body (JString (ascii ''jobs''))),
      Arrived (query_body (JString (ascii ''brands''))))
     [(Second, Dispatch), (First, Dispatch),
      (Second, LLMSettled (HttpOk (provider_reply (ascii ''```sql SELECT 2 ```'')))),
      (First, LLMSettled (HttpOk (provider_reply (ascii ''SELECT 1'')))),
      (Second, DBSettled (DbRows (JArray []))),
      (First, DBSettled (DbFailed (ascii ''gone'')))] =
   (\<lparr>api_key = JString (ascii ''k''),
      console = [GeneratedSQL (ascii ''SELECT 2''), GeneratedSQL (ascii ''SELECT 1''),
                 SQLExecutionError (ascii ''gone'')]\<rparr>,
    Done (Responded (execution_failed (ascii ''SELECT 1'') (ascii ''gone''))),
    Done (Responded (query_ok (ascii ''SELECT 2'') (JArray []))))"
  using requests_do_not_interfere
    [of "\<lambda>n. ascii ''0''" "\<lparr>api_key = JString (ascii ''k''), console = []\<rparr>"
        "query_body (JString (ascii ''jobs''))" "query_body (JString (ascii ''brands''))"
        "[(Second, Dispatch), (First, Dispatch),
          (Second, LLMSettled (HttpOk (provider_reply (ascii ''```sql SELECT 2 ```'')))),
          (First, LLMSettled (HttpOk (provider_reply (ascii ''SELECT 1'')))),
          (Second, DBSettled (DbRows (JArray []))),
          (First, DBSettled (DbFailed (ascii ''gone'')))]"
        "ascii ''jobs''" "provider_reply (ascii ''SELECT 1'')" "DbFailed (ascii ''gone'')"
        "ascii ''SELECT 1''"]
  by (simp add: interleave_def own_events_def query_body_def generateSQL_prompt_def
      generateSQL_finish_def generateSQL_log_def query_log_def first_candidate_text_reply
      finish_query_def eval_strings)

end
